theory Spec2Isabelle
  imports Complex_Main
begin

section \<open>Python values and exceptions\<close>

text \<open>
  \<^verbatim>\<open>mavbridge.py\<close> is Python 2. An exception is described by its class name, by whether
  the class derives from \<^verbatim>\<open>Exception\<close> (\<^verbatim>\<open>SystemExit\<close>, \<^verbatim>\<open>KeyboardInterrupt\<close> and
  \<^verbatim>\<open>GeneratorExit\<close> derive from \<^verbatim>\<open>BaseException\<close> only), and by what \<^verbatim>\<open>str(ex)\<close> does:
  it returns a string (\<open>Inr\<close>), or it raises an exception in its turn (\<open>Inl\<close>), as it does
  with \<^verbatim>\<open>UnicodeEncodeError\<close> for a unicode message that is not ASCII.
\<close>

datatype pyexc = PyExc (exc_class: string) (derives_Exception: bool) (exc_str: "pyexc + string")

text \<open>
  The file uses two handler clauses: \<^verbatim>\<open>except Exception as ex:\<close> (lines 196 and 228)
  and the bare \<^verbatim>\<open>except:\<close> (line 238).
\<close>

datatype except_clause = ExceptException | ExceptBare

fun catches :: "except_clause \<Rightarrow> pyexc \<Rightarrow> bool" where
  "catches ExceptException ex = derives_Exception ex"
| "catches ExceptBare ex = True"

text \<open>
  \<^verbatim>\<open>args.baudrate\<close> is an \<^verbatim>\<open>int\<close> when it comes from \<^verbatim>\<open>-b\<close> (\<^verbatim>\<open>type=int\<close>, default 57600)
  and a \<^verbatim>\<open>str\<close> when it comes from \<^verbatim>\<open>str.split\<close>.
\<close>

datatype pyval = PyInt int | PyStr string

text \<open>
  The \<^verbatim>\<open>print\<close> statement writes a line to the standard output, or raises (\<^verbatim>\<open>IOError\<close> when
  the output is closed or its pipe is broken). What the output does is the parameter
  \<open>pr\<close>: given the lines printed so far and the next line, \<open>None\<close> when the line is
  written and \<open>Some ex\<close> when the statement raises \<open>ex\<close> and writes nothing.
\<close>

type_synonym printer = "string list \<Rightarrow> string \<Rightarrow> pyexc option"

definition py_print :: "printer \<Rightarrow> string list \<Rightarrow> string \<Rightarrow> pyexc + string list" where
  "py_print pr out line = (case pr out line of None \<Rightarrow> Inr (out @ [line]) | Some ex \<Rightarrow> Inl ex)"

text \<open>
  A start-up step either goes on to the next statement, leaves the process through
  \<^verbatim>\<open>sys.exit(code)\<close>, or lets an exception propagate to the top level.
\<close>

datatype 'a flow = Continue 'a | SysExit int | Uncaught pyexc

text \<open>\<^verbatim>\<open>s.find(c)\<close> for a one-character needle: the lowest index, or -1.\<close>

fun py_find :: "char \<Rightarrow> string \<Rightarrow> int" where
  "py_find c [] = -1"
| "py_find c (x # xs) =
     (if x = c then 0 else (let r = py_find c xs in if r = -1 then -1 else r + 1))"

text \<open>\<^verbatim>\<open>s.split(sep)\<close> for a one-character separator: every occurrence splits.\<close>

fun py_split :: "char \<Rightarrow> string \<Rightarrow> string list" where
  "py_split sep [] = [[]]"
| "py_split sep (c # cs) =
     (if c = sep then [] # py_split sep cs
      else (case py_split sep cs of
              [] \<Rightarrow> [[c]]
            | w # ws \<Rightarrow> (c # w) # ws))"

text \<open>
  Python floats are IEEE doubles. They are modelled by the real numbers they denote;
  the rounding of a float operation to the nearest double is the parameter \<open>rnd\<close>, of
  which nothing is assumed. \<^verbatim>\<open>a / b\<close> with an \<^verbatim>\<open>int\<close> left operand and a \<^verbatim>\<open>float\<close> right
  operand is true division.
\<close>

type_synonym rounding = "real \<Rightarrow> real"

definition py_truediv :: "rounding \<Rightarrow> int \<Rightarrow> real \<Rightarrow> real" where
  "py_truediv rnd a b = rnd (real_of_int a / b)"

section \<open>Messages\<close>

subsection \<open>Bus messages received\<close>

record bool_msg =
  bool_data :: bool

record string_msg =
  string_data :: string

subsection \<open>The decoded wire message \<^verbatim>\<open>GLOBAL_POSITION_INT\<close>\<close>

record global_position_int =
  time_boot_ms :: int
  lat :: int
  lon :: int
  alt :: int
  relative_alt :: int
  vx :: int
  vy :: int
  vz :: int
  hdg :: int

subsection \<open>Bus messages published\<close>

type_synonym ros_time = "int \<times> int"

record header =
  seq :: nat
  stamp :: ros_time
  frame_id :: string

text \<open>
  The constants of \<^verbatim>\<open>sensor_msgs/NavSatStatus\<close> and \<^verbatim>\<open>sensor_msgs/NavSatFix\<close>, which the
  file imports.
\<close>

definition STATUS_NO_FIX :: int where "STATUS_NO_FIX = -1"

definition STATUS_FIX :: int where "STATUS_FIX = 0"

definition STATUS_SBAS_FIX :: int where "STATUS_SBAS_FIX = 1"

definition STATUS_GBAS_FIX :: int where "STATUS_GBAS_FIX = 2"

definition SERVICE_GPS :: int where "SERVICE_GPS = 1"

definition COVARIANCE_TYPE_UNKNOWN :: int where "COVARIANCE_TYPE_UNKNOWN = 0"

record nav_sat_status =
  status :: int
  service :: int

record nav_sat_fix =
  fix_header :: header
  fix_status :: nav_sat_status
  latitude :: real
  longitude :: real
  altitude :: real
  position_covariance :: "real list"
  position_covariance_type :: int

record point =
  point_x :: real
  point_y :: real
  point_z :: real

record quaternion =
  quat_x :: real
  quat_y :: real
  quat_z :: real
  quat_w :: real

record vector3 =
  vec_x :: real
  vec_y :: real
  vec_z :: real

record pose =
  position :: point
  orientation :: quaternion

record pose_with_covariance =
  pwc_pose :: pose
  pwc_covariance :: "real list"

record twist =
  linear :: vector3
  angular :: vector3

record twist_with_covariance =
  twc_twist :: twist
  twc_covariance :: "real list"

record odometry =
  odom_header :: header
  child_frame_id :: string
  odom_pose :: pose_with_covariance
  odom_twist :: twist_with_covariance

datatype ros_msg = NavSatFixMsg nav_sat_fix | OdometryMsg odometry

section \<open>The autopilot connection and the bridge\<close>

text \<open>
  \<^verbatim>\<open>bridge.get_master()\<close> is the pymavlink connection. Its methods send wire commands;
  the model records each command sent, in order. \<^verbatim>\<open>mode_mapping()\<close> returns the
  connection's dictionary from mode names to numeric modes, or \<^verbatim>\<open>None\<close> when the vehicle
  type is not known.
\<close>

datatype wire_cmd = ArducopterArm | ArducopterDisarm | SetMode int

record master =
  mode_mapping :: "(string \<rightharpoonup> int) option"
  sent :: "wire_cmd list"

definition arducopter_arm :: "master \<Rightarrow> master" where
  "arducopter_arm m = m\<lparr>sent := sent m @ [ArducopterArm]\<rparr>"

definition arducopter_disarm :: "master \<Rightarrow> master" where
  "arducopter_disarm m = m\<lparr>sent := sent m @ [ArducopterDisarm]\<rparr>"

definition set_mode :: "int \<Rightarrow> master \<Rightarrow> master" where
  "set_mode n m = m\<lparr>sent := sent m @ [SetMode n]\<rparr>"

text \<open>
  A module object is identified by its dotted name. The bridge holds the connection, the
  messages published so far with their topics, the table of loaded modules, and the
  handler entries that modules have registered, each with the name its module was added
  under.
\<close>

type_synonym module_obj = string

record bridge =
  get_master :: master
  published :: "(string \<times> ros_msg) list"
  modules :: "string \<rightharpoonup> module_obj"
  registrations :: "(string \<times> string) list"

definition publish :: "string \<Rightarrow> ros_msg \<Rightarrow> bridge \<Rightarrow> bridge" where
  "publish topic msg b = b\<lparr>published := published b @ [(topic, msg)]\<rparr>"

text \<open>
  What Python does outside the file when modules are loaded: \<^verbatim>\<open>__import__(name)\<close>,
  \<^verbatim>\<open>getattr(obj, comp)\<close> and \<^verbatim>\<open>reload(obj)\<close>, each of which may raise, and the registration
  entrypoint of a module, which raises or registers handler entries.
\<close>

record py_env =
  import_module :: "string \<Rightarrow> pyexc + module_obj"
  getattr_module :: "module_obj \<Rightarrow> string \<Rightarrow> pyexc + module_obj"
  reload_module :: "module_obj \<Rightarrow> pyexc option"
  module_init :: "module_obj \<Rightarrow> pyexc + string list"

text \<open>
  Modelled from the spec: \<^verbatim>\<open>MAVLinkBridge.get_module\<close> is not in \<^verbatim>\<open>mavbridge.py\<close>. The spec
  says: \<^verbatim>\<open>get_module(name)\<close> returns the loaded module or none.
\<close>

definition get_module :: "bridge \<Rightarrow> string \<Rightarrow> module_obj option" where
  "get_module b name = modules b name"

text \<open>
  Modelled from the spec: \<^verbatim>\<open>MAVLinkBridge.add_module\<close> is not in \<^verbatim>\<open>mavbridge.py\<close>. The spec
  says that loading invokes the module's registration entrypoint with a bridge handle,
  that a module is a name, a load state and the set of handler entries it registered,
  and that \<^verbatim>\<open>get_module(name)\<close> returns the loaded module: the entrypoint runs, and when it
  returns the module is stored under the name given and its entries are kept.
\<close>

definition add_module :: "py_env \<Rightarrow> bridge \<Rightarrow> string \<Rightarrow> module_obj \<Rightarrow> pyexc + bridge" where
  "add_module env b name m_obj =
     (case module_init env m_obj of
        Inl ex \<Rightarrow> Inl ex
      | Inr entries \<Rightarrow>
          Inr (b\<lparr>modules := (modules b)(name \<mapsto> m_obj),
                 registrations := registrations b @ map (\<lambda>e. (name, e)) entries\<rparr>))"

section \<open>Standard ROS subscribers\<close>

text \<open>
  \<^verbatim>\<open>
  def sub_arm_throttle(message, bridge):
      if message.data:
          bridge.get_master().arducopter_arm()
      else:
          bridge.get_master().arducopter_disarm()
  \<close>
\<close>

definition sub_arm_throttle :: "bool_msg \<Rightarrow> bridge \<Rightarrow> bridge" where
  "sub_arm_throttle message b =
     (if bool_data message
      then b\<lparr>get_master := arducopter_arm (get_master b)\<rparr>
      else b\<lparr>get_master := arducopter_disarm (get_master b)\<rparr>)"

text \<open>
  \<^verbatim>\<open>
  def sub_change_mode(message, bridge):
      mav_map = bridge.get_master().mode_mapping()
      if message.data in mav_map:
          bridge.get_master().set_mode(mav_map[message.data])
      else:
          raise Exception("invalid mode " + message.data)
  \<close>
  The result is the bridge after the call and the exception raised, if any. When
  \<^verbatim>\<open>mav_map\<close> is \<^verbatim>\<open>None\<close> the membership test \<^verbatim>\<open>message.data in mav_map\<close> raises \<^verbatim>\<open>TypeError\<close>.
\<close>

definition msg_not_iterable :: string where
  "msg_not_iterable =
     ''argument of type '' @ [CHR 0x27] @ ''NoneType'' @ [CHR 0x27] @ '' is not iterable''"

definition sub_change_mode :: "string_msg \<Rightarrow> bridge \<Rightarrow> bridge \<times> pyexc option" where
  "sub_change_mode message b =
     (case mode_mapping (get_master b) of
        None \<Rightarrow> (b, Some (PyExc ''TypeError'' True (Inr msg_not_iterable)))
      | Some mav_map \<Rightarrow>
          (case mav_map (string_data message) of
             Some n \<Rightarrow> (b\<lparr>get_master := set_mode n (get_master b)\<rparr>, None)
           | None \<Rightarrow>
               (b, Some (PyExc ''Exception'' True
                           (Inr (''invalid mode '' @ string_data message))))))"

section \<open>Standard ROS publishers\<close>

text \<open>
  \<^verbatim>\<open>bridge.project_ap_time(msg)\<close> is not in the file; it is the parameter
  \<open>project_ap_time\<close>. A message object starts with every number zero, every string empty
  and every list of fixed length filled with zeros, as the generated ROS classes do; the
  fields the publisher assigns are given in the order of the source.
\<close>

definition pub_gps ::
  "rounding \<Rightarrow> (global_position_int \<Rightarrow> ros_time) \<Rightarrow> global_position_int \<Rightarrow> bridge \<Rightarrow> bridge" where
  "pub_gps rnd project_ap_time msg b =
     (let fix = \<lparr>
        fix_header = \<lparr>seq = 0, stamp = project_ap_time msg, frame_id = ''base_footprint''\<rparr>,
        fix_status = \<lparr>status = STATUS_FIX, service = SERVICE_GPS\<rparr>,
        latitude = py_truediv rnd (lat msg) 10000000,
        longitude = py_truediv rnd (lon msg) 10000000,
        altitude = py_truediv rnd (alt msg) 1000,
        position_covariance = replicate 9 0,
        position_covariance_type = COVARIANCE_TYPE_UNKNOWN\<rparr>
      in publish ''gps'' (NavSatFixMsg fix) b)"

text \<open>
  The covariance tuple of lines 132 to 137. The literal \<^verbatim>\<open>0.1\<close> is the double nearest to
  one tenth; \<^verbatim>\<open>0\<close> and \<^verbatim>\<open>99999\<close> are exact.
\<close>

definition odom_covariance :: "rounding \<Rightarrow> real list" where
  "odom_covariance rnd =
     [rnd (1 / 10), 0, 0, 0, 0, 0,
      0, rnd (1 / 10), 0, 0, 0, 0,
      0, 0, rnd (1 / 10), 0, 0, 0,
      0, 0, 0, 99999, 0, 0,
      0, 0, 0, 0, 99999, 0,
      0, 0, 0, 0, 0, 99999]"

definition pub_gps_odom ::
  "rounding \<Rightarrow> (global_position_int \<Rightarrow> ros_time) \<Rightarrow> global_position_int \<Rightarrow> bridge \<Rightarrow> bridge" where
  "pub_gps_odom rnd project_ap_time msg b =
     (let pose_covariance = odom_covariance rnd;
          odom = \<lparr>
        odom_header = \<lparr>seq = 0, stamp = project_ap_time msg, frame_id = ''base_footprint''\<rparr>,
        child_frame_id = [],
        odom_pose = \<lparr>
          pwc_pose = \<lparr>
            position = \<lparr>point_x = py_truediv rnd (lat msg) 10000000,
                        point_y = py_truediv rnd (lon msg) 10000000,
                        point_z = py_truediv rnd (relative_alt msg) 1000\<rparr>,
            orientation = \<lparr>quat_x = 1, quat_y = 0, quat_z = 0, quat_w = 0\<rparr>\<rparr>,
          pwc_covariance = pose_covariance\<rparr>,
        odom_twist = \<lparr>
          twc_twist = \<lparr>
            linear = \<lparr>vec_x = py_truediv rnd (vx msg) 100,
                      vec_y = py_truediv rnd (vy msg) 100,
                      vec_z = py_truediv rnd (vz msg) 100\<rparr>,
            angular = \<lparr>vec_x = 0, vec_y = 0, vec_z = 0\<rparr>\<rparr>,
          twc_covariance = pose_covariance\<rparr>\<rparr>
      in publish ''gps_odom'' (OdometryMsg odom) b)"

section \<open>Start-up\<close>

subsection \<open>Special device cases (lines 172 to 177)\<close>

text \<open>
  \<^verbatim>\<open>
  if args.device and args.device.find(':') == -1:
      if ',' in args.device:
          args.device, args.baudrate = args.device.split(',')
  \<close>
  \<^verbatim>\<open>args.device\<close> is \<^verbatim>\<open>None\<close> or a string; \<^verbatim>\<open>None\<close> and the empty string are false. The
  assignment unpacks the list into two targets and raises \<^verbatim>\<open>ValueError\<close> when the list has
  more than two elements (with a comma in the string it never has fewer).
\<close>

definition handle_device :: "string option \<Rightarrow> pyval \<Rightarrow> pyexc + (string option \<times> pyval)" where
  "handle_device device baudrate =
     (case device of
        None \<Rightarrow> Inr (None, baudrate)
      | Some d \<Rightarrow>
          if d \<noteq> [] \<and> py_find CHR '':'' d = -1 then
            (if CHR '','' \<in> set d then
               (case py_split CHR '','' d of
                  [dev, baud] \<Rightarrow> Inr (Some dev, PyStr baud)
                | _ \<Rightarrow> Inl (PyExc ''ValueError'' True (Inr ''too many values to unpack'')))
             else Inr (Some d, baudrate))
          else Inr (Some d, baudrate))"

subsection \<open>Bridge construction (lines 188 to 198)\<close>

record bridge_args =
  arg_device :: "string option"
  arg_baudrate :: pyval
  arg_basename :: string
  arg_loop_rate :: pyval
  arg_sync_local_clock :: bool
  arg_serial_relief :: int
  arg_spam_mavlink :: bool

text \<open>
  \<^verbatim>\<open>
  try:
      bridge = MAVLinkBridge(device=args.device, ...)
  except Exception as ex:
      print str(ex)
      sys.exit(-1)
  \<close>
  The constructor is not in the file: \<open>MAVLinkBridge k args\<close> is what its call number
  \<open>k\<close> (from 0) would do, a bridge or an exception. The result is what the step does next
  and the lines printed. In the handler \<^verbatim>\<open>str(ex)\<close> is evaluated, then the line is printed,
  then \<^verbatim>\<open>sys.exit(-1)\<close> is called; an exception raised by \<^verbatim>\<open>str(ex)\<close> or by \<^verbatim>\<open>print\<close> is
  inside no \<^verbatim>\<open>try\<close> and propagates.
\<close>

definition init_bridge ::
  "printer \<Rightarrow> (nat \<Rightarrow> bridge_args \<Rightarrow> pyexc + bridge) \<Rightarrow> bridge_args \<Rightarrow> string list
     \<Rightarrow> bridge flow \<times> string list" where
  "init_bridge pr MAVLinkBridge args out =
     (case MAVLinkBridge 0 args of
        Inr b \<Rightarrow> (Continue b, out)
      | Inl ex \<Rightarrow>
          if catches ExceptException ex then
            (case exc_str ex of
               Inl ex' \<Rightarrow> (Uncaught ex', out)
             | Inr s \<Rightarrow>
                 (case py_print pr out s of
                    Inl ex' \<Rightarrow> (Uncaught ex', out)
                  | Inr out' \<Rightarrow> (SysExit (-1), out')))
          else (Uncaught ex, out))"

subsection \<open>Module registration (lines 212 to 229)\<close>

definition msg_already_loaded :: "string \<Rightarrow> string" where
  "msg_already_loaded m_name =
     ''Module '' @ [CHR 0x27] @ m_name @ [CHR 0x27] @ '' already loaded''"

definition msg_loaded :: "string \<Rightarrow> string" where
  "msg_loaded m_name =
     ''Module '' @ [CHR 0x27] @ m_name @ [CHR 0x27] @ '' loaded successfully''"

definition msg_failed :: "string \<Rightarrow> string \<Rightarrow> string" where
  "msg_failed m_name s =
     ''Failed to load module '' @ [CHR 0x27] @ m_name @ [CHR 0x27] @ '': '' @ s"

text \<open>\<^verbatim>\<open>for comp in components[1:]: m_obj = getattr(m_obj, comp)\<close>\<close>

fun getattr_chain :: "py_env \<Rightarrow> module_obj \<Rightarrow> string list \<Rightarrow> pyexc + module_obj" where
  "getattr_chain env m_obj [] = Inr m_obj"
| "getattr_chain env m_obj (c # components) =
     (case getattr_module env m_obj c of
        Inl ex \<Rightarrow> Inl ex
      | Inr m_obj' \<Rightarrow> getattr_chain env m_obj' components)"

text \<open>
  The body of the \<^verbatim>\<open>try\<close>, up to \<^verbatim>\<open>bridge.add_module(m, m_obj)\<close>:
  \<^verbatim>\<open>
  m_obj = __import__(m_name)
  components = m_name.split('.')
  for comp in components[1:]:
      m_obj = getattr(m_obj, comp)
  reload(m_obj)
  bridge.add_module(m, m_obj)
  \<close>
\<close>

definition try_load :: "py_env \<Rightarrow> bridge \<Rightarrow> string \<Rightarrow> string \<Rightarrow> pyexc + bridge" where
  "try_load env b m m_name =
     (case import_module env m_name of
        Inl ex \<Rightarrow> Inl ex
      | Inr m_obj \<Rightarrow>
          (let components = py_split CHR ''.'' m_name in
           case getattr_chain env m_obj (tl components) of
             Inl ex \<Rightarrow> Inl ex
           | Inr m_obj' \<Rightarrow>
               (case reload_module env m_obj' of
                  Some ex \<Rightarrow> Inl ex
                | None \<Rightarrow> add_module env b m m_obj')))"

text \<open>
  The handler of lines 228 and 229:
  \<^verbatim>\<open>
  except Exception as ex:
      print "Failed to load module '%s': %s" % (m_name, str(ex))
  \<close>
  An exception that the clause does not catch propagates. In the handler \<^verbatim>\<open>str(ex)\<close> is
  evaluated, then the line is printed; an exception raised by either is inside no \<^verbatim>\<open>try\<close>
  and propagates. The result is the lines printed, or the exception that propagates.
\<close>

definition report_failure ::
  "printer \<Rightarrow> string \<Rightarrow> pyexc \<Rightarrow> string list \<Rightarrow> pyexc + string list" where
  "report_failure pr m_name ex out =
     (if catches ExceptException ex then
        (case exc_str ex of
           Inl ex' \<Rightarrow> Inl ex'
         | Inr s \<Rightarrow> py_print pr out (msg_failed m_name s))
      else Inl ex)"

text \<open>
  One pass of the loop body:
  \<^verbatim>\<open>
  m_name = "mavbridge_%s" % m
  if bridge.get_module(m_name) is not None:
      print "Module '%s' already loaded" % m_name
      continue
  try:
      ...
      print "Module '%s' loaded successfully" % m_name
  except Exception as ex:
      print "Failed to load module '%s': %s" % (m_name, str(ex))
  \<close>
  The print of line 216 is outside the \<^verbatim>\<open>try\<close>; the print of line 227 is inside it, after
  \<^verbatim>\<open>add_module\<close> has changed the bridge.
\<close>

definition load_one ::
  "printer \<Rightarrow> py_env \<Rightarrow> string \<Rightarrow> bridge \<Rightarrow> string list \<Rightarrow> pyexc + (bridge \<times> string list)" where
  "load_one pr env m b out =
     (let m_name = ''mavbridge_'' @ m in
      if get_module b m_name \<noteq> None then
        (case py_print pr out (msg_already_loaded m_name) of
           Inl ex \<Rightarrow> Inl ex
         | Inr out' \<Rightarrow> Inr (b, out'))
      else
        (case try_load env b m m_name of
           Inl ex \<Rightarrow>
             (case report_failure pr m_name ex out of
                Inl ex' \<Rightarrow> Inl ex'
              | Inr out' \<Rightarrow> Inr (b, out'))
         | Inr b' \<Rightarrow>
             (case py_print pr out (msg_loaded m_name) of
                Inr out' \<Rightarrow> Inr (b', out')
              | Inl ex \<Rightarrow>
                  (case report_failure pr m_name ex out of
                     Inl ex' \<Rightarrow> Inl ex'
                   | Inr out' \<Rightarrow> Inr (b', out')))))"

text \<open>
  \<^verbatim>\<open>for m in args.module: ...\<close>: an exception that leaves the body leaves the loop and the
  program.
\<close>

fun load_loop ::
  "printer \<Rightarrow> py_env \<Rightarrow> string list \<Rightarrow> bridge \<Rightarrow> string list
     \<Rightarrow> pyexc + (bridge \<times> string list)" where
  "load_loop pr env [] b out = Inr (b, out)"
| "load_loop pr env (m # ms) b out =
     (case load_one pr env m b out of
        Inl ex \<Rightarrow> Inl ex
      | Inr (b', out') \<Rightarrow> load_loop pr env ms b' out')"

text \<open>\<^verbatim>\<open>if args.module is not None: for m in args.module: ...\<close>\<close>

definition register_modules ::
  "printer \<Rightarrow> py_env \<Rightarrow> string list option \<Rightarrow> bridge \<Rightarrow> string list
     \<Rightarrow> pyexc + (bridge \<times> string list)" where
  "register_modules pr env arg_module b out =
     (case arg_module of
        None \<Rightarrow> Inr (b, out)
      | Some ms \<Rightarrow> load_loop pr env ms b out)"

subsection \<open>The start-up loop (lines 233 to 239)\<close>




section \<open>Example inputs\<close>

text \<open>The defaults of the argument parser (lines 152 to 169).\<close>

definition default_args :: bridge_args where
  "default_args =
     \<lparr>arg_device = None, arg_baudrate = PyInt 57600, arg_basename = ''autopilot'',
      arg_loop_rate = PyInt 50, arg_sync_local_clock = False, arg_serial_relief = 0,
      arg_spam_mavlink = False\<rparr>"

text \<open>
  A standard output that takes every line, one that is closed, and one whose pipe
  breaks after the first line.
\<close>

definition stdout_ok :: printer where
  "stdout_ok out line = None"



text \<open>
  A bridge that has sent, published and loaded nothing, on a connection whose vehicle
  type is not known.
\<close>

definition fresh_bridge :: bridge where
  "fresh_bridge =
     \<lparr>get_master = \<lparr>mode_mapping = None, sent = []\<rparr>, published = [],
      modules = Map.empty, registrations = []\<rparr>"

text \<open>A connection that knows the mode \<^verbatim>\<open>GUIDED\<close> as 4 and has armed the throttle.\<close>

definition copter_bridge :: bridge where
  "copter_bridge =
     fresh_bridge\<lparr>get_master := \<lparr>mode_mapping = Some [''GUIDED'' \<mapsto> 4], sent = [ArducopterArm]\<rparr>\<rparr>"

text \<open>
  A constructor whose first call fails with an \<^verbatim>\<open>Exception\<close> and whose later calls
  would succeed, and one that is interrupted from the keyboard.
\<close>

definition ctor_no_heartbeat :: "nat \<Rightarrow> bridge_args \<Rightarrow> pyexc + bridge" where
  "ctor_no_heartbeat k args =
     (if k = 0 then Inl (PyExc ''Exception'' True (Inr ''no heartbeat'')) else Inr fresh_bridge)"

definition ctor_interrupted :: "nat \<Rightarrow> bridge_args \<Rightarrow> pyexc + bridge" where
  "ctor_interrupted k args = Inl (PyExc ''KeyboardInterrupt'' False (Inr []))"

text \<open>
  A Python environment in which \<^verbatim>\<open>mavbridge_missing\<close> cannot be imported, importing
  \<^verbatim>\<open>mavbridge_quits\<close> calls \<^verbatim>\<open>sys.exit(1)\<close>, and every other module imports, reloads and
  registers one handler entry.
\<close>

definition example_import :: "string \<Rightarrow> pyexc + module_obj" where
  "example_import name =
     (if name = ''mavbridge_missing''
      then Inl (PyExc ''ImportError'' True (Inr ''No module named mavbridge_missing''))
      else if name = ''mavbridge_quits'' then Inl (PyExc ''SystemExit'' False (Inr ''1''))
      else Inr name)"

definition example_getattr :: "module_obj \<Rightarrow> string \<Rightarrow> pyexc + module_obj" where
  "example_getattr m_obj attr = Inr (m_obj @ ''.'' @ attr)"

definition example_reload :: "module_obj \<Rightarrow> pyexc option" where
  "example_reload m_obj = None"

definition example_init :: "module_obj \<Rightarrow> pyexc + string list" where
  "example_init m_obj = Inr [''HEARTBEAT'']"

definition example_env :: py_env where
  "example_env =
     \<lparr>import_module = example_import, getattr_module = example_getattr,
      reload_module = example_reload, module_init = example_init\<rparr>"



section \<open>Verified properties\<close>

subsection \<open>The subscribers\<close>

text \<open>
  C7. For every boolean arm/disarm message the arm handler sends exactly one wire
  command: the arm command if and only if the data field is true, the disarm command if
  and only if it is false. Nothing else of the bridge changes.
\<close>

theorem sub_arm_throttle_one_command:
  "\<exists>c. sub_arm_throttle message b
           = b\<lparr>get_master := (get_master b)\<lparr>sent := sent (get_master b) @ [c]\<rparr>\<rparr>
     \<and> (c = ArducopterArm) = bool_data message
     \<and> (c = ArducopterDisarm) = (\<not> bool_data message)"
  by (simp add: sub_arm_throttle_def arducopter_arm_def arducopter_disarm_def)

text \<open>
  C3, as stated, fails: for a mode name that is not in the mapping the handler raises a
  plain \<^verbatim>\<open>Exception\<close>, not a \<^verbatim>\<open>ConfigError\<close> (the file defines no exception class).
  Here the mapping knows \<^verbatim>\<open>GUIDED\<close> only and the message asks for \<^verbatim>\<open>WARP\<close>.
\<close>

theorem sub_change_mode_raises_plain_Exception:
  "snd (sub_change_mode \<lparr>string_data = ''WARP''\<rparr> copter_bridge)
     = Some (PyExc ''Exception'' True (Inr ''invalid mode WARP''))
   \<and> map_option exc_class (snd (sub_change_mode \<lparr>string_data = ''WARP''\<rparr> copter_bridge))
       \<noteq> Some ''ConfigError''"
  by (simp add: sub_change_mode_def copter_bridge_def)

text \<open>
  C3, amended. For every mode-change message whose mode string is not in the mode mapping
  the handler raises a generic \<^verbatim>\<open>Exception\<close> with the text \<^verbatim>\<open>invalid mode <name>\<close>, or,
  when the connection has no mode mapping at all (\<^verbatim>\<open>mode_mapping()\<close> returns \<^verbatim>\<open>None\<close>), the
  \<^verbatim>\<open>TypeError\<close> of the membership test; in both cases it sends no wire command and the
  bridge is unchanged. For every recognised mode string it sends exactly the set-mode
  command with the mapped numeric mode and raises nothing.
\<close>

theorem sub_change_mode_amended:
  "(\<forall>mav_map. mode_mapping (get_master b) = Some mav_map
        \<and> mav_map (string_data message) = None \<longrightarrow>
      sub_change_mode message b =
        (b, Some (PyExc ''Exception'' True (Inr (''invalid mode '' @ string_data message)))))
   \<and> (mode_mapping (get_master b) = None \<longrightarrow>
      sub_change_mode message b = (b, Some (PyExc ''TypeError'' True (Inr msg_not_iterable))))
   \<and> (\<forall>mav_map n. mode_mapping (get_master b) = Some mav_map
        \<and> mav_map (string_data message) = Some n \<longrightarrow>
      sub_change_mode message b =
        (b\<lparr>get_master := (get_master b)\<lparr>sent := sent (get_master b) @ [SetMode n]\<rparr>\<rparr>, None))"
  by (simp add: sub_change_mode_def set_mode_def)

text \<open>
  The amended C3 at a connection that knows \<^verbatim>\<open>GUIDED\<close> as mode 4: \<^verbatim>\<open>GUIDED\<close> sends
  \<open>SetMode 4\<close>, \<^verbatim>\<open>WARP\<close> raises \<^verbatim>\<open>Exception\<close> and sends nothing; and at a connection with
  no mode mapping: \<^verbatim>\<open>TypeError\<close>, and nothing is sent.
\<close>

theorem sub_change_mode_amended_witness:
  "sub_change_mode \<lparr>string_data = ''GUIDED''\<rparr> copter_bridge
     = (copter_bridge\<lparr>get_master :=
          (get_master copter_bridge)\<lparr>sent := [ArducopterArm, SetMode 4]\<rparr>\<rparr>, None)
   \<and> sub_change_mode \<lparr>string_data = ''WARP''\<rparr> copter_bridge
     = (copter_bridge, Some (PyExc ''Exception'' True (Inr ''invalid mode WARP'')))
   \<and> sub_change_mode \<lparr>string_data = ''GUIDED''\<rparr> fresh_bridge
     = (fresh_bridge, Some (PyExc ''TypeError'' True (Inr msg_not_iterable)))"
  using sub_change_mode_amended [of copter_bridge "\<lparr>string_data = ''GUIDED''\<rparr>"]
        sub_change_mode_amended [of copter_bridge "\<lparr>string_data = ''WARP''\<rparr>"]
        sub_change_mode_amended [of fresh_bridge "\<lparr>string_data = ''GUIDED''\<rparr>"]
  by (simp add: copter_bridge_def fresh_bridge_def)

subsection \<open>The publishers\<close>

text \<open>
  C6. For every decoded \<^verbatim>\<open>GLOBAL_POSITION_INT\<close> message the geodetic-fix publisher
  publishes one fix with latitude = lat/1e7, longitude = lon/1e7 and altitude = alt/1e3,
  and the odometry publisher publishes one message with position x = lat/1e7,
  y = lon/1e7, z = relative_alt/1e3 and linear velocity vx/1e2, vy/1e2, vz/1e2. Each
  quotient is Python's float division, that is the exact quotient rounded to a double by
  \<open>rnd\<close>.
\<close>

theorem pub_gps_unit_conversions:
  "\<exists>fix odom.
     published (pub_gps rnd project_ap_time msg b) = published b @ [(''gps'', NavSatFixMsg fix)]
     \<and> latitude fix = rnd (real_of_int (lat msg) / 10 ^ 7)
     \<and> longitude fix = rnd (real_of_int (lon msg) / 10 ^ 7)
     \<and> altitude fix = rnd (real_of_int (alt msg) / 10 ^ 3)
     \<and> published (pub_gps_odom rnd project_ap_time msg b)
         = published b @ [(''gps_odom'', OdometryMsg odom)]
     \<and> point_x (position (pwc_pose (odom_pose odom))) = rnd (real_of_int (lat msg) / 10 ^ 7)
     \<and> point_y (position (pwc_pose (odom_pose odom))) = rnd (real_of_int (lon msg) / 10 ^ 7)
     \<and> point_z (position (pwc_pose (odom_pose odom)))
         = rnd (real_of_int (relative_alt msg) / 10 ^ 3)
     \<and> vec_x (linear (twc_twist (odom_twist odom))) = rnd (real_of_int (vx msg) / 10 ^ 2)
     \<and> vec_y (linear (twc_twist (odom_twist odom))) = rnd (real_of_int (vy msg) / 10 ^ 2)
     \<and> vec_z (linear (twc_twist (odom_twist odom))) = rnd (real_of_int (vz msg) / 10 ^ 2)"
  by (simp add: pub_gps_def pub_gps_odom_def publish_def py_truediv_def Let_def)

text \<open>
  C9. Every fix published by the GPS publisher has status \<^verbatim>\<open>STATUS_FIX\<close>, service
  \<^verbatim>\<open>SERVICE_GPS\<close> and covariance type \<^verbatim>\<open>COVARIANCE_TYPE_UNKNOWN\<close>, whatever the wire
  message holds.
\<close>

theorem pub_gps_constant_status:
  "\<exists>fix.
     published (pub_gps rnd project_ap_time msg b) = published b @ [(''gps'', NavSatFixMsg fix)]
     \<and> status (fix_status fix) = STATUS_FIX
     \<and> service (fix_status fix) = SERVICE_GPS
     \<and> position_covariance_type fix = COVARIANCE_TYPE_UNKNOWN"
  by (simp add: pub_gps_def publish_def Let_def)

text \<open>
  C10. Every odometry message published by the GPS-odometry publisher has the orientation
  quaternion (x=1, y=0, z=0, w=0) and one and the same 6x6 covariance matrix, the
  constant \<open>odom_covariance\<close>, for pose and twist, whatever the wire message holds.
\<close>

theorem pub_gps_odom_constant_orientation_covariance:
  "\<exists>odom.
     published (pub_gps_odom rnd project_ap_time msg b)
       = published b @ [(''gps_odom'', OdometryMsg odom)]
     \<and> orientation (pwc_pose (odom_pose odom)) = \<lparr>quat_x = 1, quat_y = 0, quat_z = 0, quat_w = 0\<rparr>
     \<and> pwc_covariance (odom_pose odom) = odom_covariance rnd
     \<and> twc_covariance (odom_twist odom) = odom_covariance rnd
     \<and> length (odom_covariance rnd) = 6 * 6"
  by (simp add: pub_gps_odom_def publish_def Let_def odom_covariance_def)

subsection \<open>Special device cases\<close>

lemma py_find_ge: "- 1 \<le> py_find c s"
  by (induction s) (auto simp: Let_def)

lemma py_find_absent: "(py_find c s = - 1) = (c \<notin> set s)"
proof (induction s)
  case Nil
  show ?case by simp
next
  case (Cons x xs)
  have "py_find c xs + 1 \<noteq> - 1"
    using py_find_ge [of c xs] by linarith
  with Cons show ?case by (auto simp: Let_def)
qed

lemma py_split_no_sep: "sep \<notin> set s \<Longrightarrow> py_split sep s = [s]"
  by (induction s) auto

lemma py_split_one_sep:
  "sep \<notin> set p \<Longrightarrow> sep \<notin> set q \<Longrightarrow> py_split sep (p @ sep # q) = [p, q]"
  by (induction p) (auto simp: py_split_no_sep)

lemma length_py_split: "length (py_split sep s) = Suc (count_list s sep)"
  by (induction s) (auto split: list.splits)

text \<open>
  C2, as stated, fails: for \<^verbatim>\<open>COM3,115200\<close> the baud rate is the string \<^verbatim>\<open>'115200'\<close> that
  \<^verbatim>\<open>split\<close> returned, not the integer 115200 (the file never converts it).
\<close>

theorem handle_device_baud_is_text:
  "handle_device (Some ''COM3,115200'') (PyInt 57600) = Inr (Some ''COM3'', PyStr ''115200'')
   \<and> handle_device (Some ''COM3,115200'') (PyInt 57600) \<noteq> Inr (Some ''COM3'', PyInt 115200)"
  by (simp add: handle_device_def)

text \<open>
  C2, amended. For every device spec string: a spec \<^verbatim>\<open>path,baud\<close> with one comma and no
  colon parses to the device \<^verbatim>\<open>path\<close> and to the baud rate \<^verbatim>\<open>baud\<close> as a string, the text
  after the comma, whatever baud rate was supplied separately (so \<^verbatim>\<open>COM3,115200\<close> parses to
  device \<^verbatim>\<open>COM3\<close> and baud rate \<^verbatim>\<open>'115200'\<close>); and every spec that contains a colon is passed
  through unchanged, with the separately supplied baud rate, whatever comma suffix it has.
\<close>

theorem handle_device_amended:
  "(CHR '','' \<notin> set path \<and> CHR '','' \<notin> set baud
      \<and> CHR '':'' \<notin> set path \<and> CHR '':'' \<notin> set baud \<longrightarrow>
      handle_device (Some (path @ CHR '','' # baud)) baudrate = Inr (Some path, PyStr baud))
   \<and> handle_device (Some ''COM3,115200'') baudrate = Inr (Some ''COM3'', PyStr ''115200'')
   \<and> (CHR '':'' \<in> set d \<longrightarrow> handle_device (Some d) baudrate = Inr (Some d, baudrate))"
proof (intro conjI impI)
  assume a: "CHR '','' \<notin> set path \<and> CHR '','' \<notin> set baud
      \<and> CHR '':'' \<notin> set path \<and> CHR '':'' \<notin> set baud"
  then have "py_find CHR '':'' (path @ CHR '','' # baud) = - 1"
    by (simp add: py_find_absent)
  moreover from a have "py_split CHR '','' (path @ CHR '','' # baud) = [path, baud]"
    by (simp add: py_split_one_sep)
  ultimately show "handle_device (Some (path @ CHR '','' # baud)) baudrate
                     = Inr (Some path, PyStr baud)"
    by (simp add: handle_device_def)
next
  show "handle_device (Some ''COM3,115200'') baudrate = Inr (Some ''COM3'', PyStr ''115200'')"
    by (simp add: handle_device_def)
next
  assume "CHR '':'' \<in> set d"
  then show "handle_device (Some d) baudrate = Inr (Some d, baudrate)"
    by (simp add: handle_device_def py_find_absent)
qed

text \<open>
  The amended C2 at a serial path with the comma shorthand and another baud rate
  supplied, at \<^verbatim>\<open>COM3,115200\<close>, and at a TCP endpoint with a comma suffix.
\<close>

theorem handle_device_amended_witness:
  "handle_device (Some (''/dev/ttyUSB0'' @ CHR '','' # ''57600'')) (PyInt 115200)
     = Inr (Some ''/dev/ttyUSB0'', PyStr ''57600'')
   \<and> handle_device (Some ''COM3,115200'') (PyInt 57600) = Inr (Some ''COM3'', PyStr ''115200'')
   \<and> handle_device (Some ''tcp:10.0.0.2:5760,115200'') (PyInt 57600)
       = Inr (Some ''tcp:10.0.0.2:5760,115200'', PyInt 57600)"
  using handle_device_amended [of "''/dev/ttyUSB0''" "''57600''" "PyInt 115200" "''x''"]
        handle_device_amended [of "[]" "[]" "PyInt 57600" "''tcp:10.0.0.2:5760,115200''"]
  by simp

text \<open>The other specs: no device, or a device without a comma, is left as it is.\<close>

lemma handle_device_plain:
  "handle_device None baudrate = Inr (None, baudrate)"
  "CHR '','' \<notin> set d \<Longrightarrow> handle_device (Some d) baudrate = Inr (Some d, baudrate)"
  by (simp_all add: handle_device_def)

text \<open>A spec without a colon and with two or more commas makes the assignment raise.\<close>

lemma handle_device_many_commas:
  assumes "CHR '':'' \<notin> set d" and "2 \<le> count_list d CHR '',''"
  shows "handle_device (Some d) baudrate
           = Inl (PyExc ''ValueError'' True (Inr ''too many values to unpack''))"
proof -
  from assms(2) have "count_list d CHR '','' \<noteq> 0" by simp
  then have comma: "CHR '','' \<in> set d" by (simp add: count_list_0_iff)
  then have ne: "d \<noteq> []" by auto
  from assms(2) have "3 \<le> length (py_split CHR '','' d)"
    by (simp add: length_py_split)
  then obtain a b c rest where "py_split CHR '','' d = a # b # c # rest"
    by (metis Suc_le_length_iff numeral_3_eq_3)
  with comma ne assms(1) show ?thesis
    by (simp add: handle_device_def py_find_absent)
qed

subsection \<open>Bridge construction\<close>

text \<open>
  C8, as stated, fails: a constructor that raises \<^verbatim>\<open>KeyboardInterrupt\<close>, which does not
  derive from \<^verbatim>\<open>Exception\<close>, is not caught by \<^verbatim>\<open>except Exception\<close>; nothing is printed and
  the program does not reach \<^verbatim>\<open>sys.exit(-1)\<close>.
\<close>

theorem init_bridge_interrupt_escapes:
  "init_bridge stdout_ok ctor_interrupted default_args []
     = (Uncaught (PyExc ''KeyboardInterrupt'' False (Inr [])), [])
   \<and> fst (init_bridge stdout_ok ctor_interrupted default_args []) \<noteq> SysExit (- 1)"
  by (simp add: init_bridge_def ctor_interrupted_def)

text \<open>
  C8, amended. If the \<^verbatim>\<open>MAVLinkBridge\<close> constructor raises an exception that derives from
  \<^verbatim>\<open>Exception\<close>, and \<^verbatim>\<open>str(ex)\<close> returns a string \<open>s\<close> that the standard output takes, the
  program prints \<open>s\<close> and exits with status -1; the constructor is not called again,
  whatever a later call would do.
\<close>

theorem init_bridge_amended:
  "MAVLinkBridge 0 args = Inl ex \<Longrightarrow> derives_Exception ex \<Longrightarrow> exc_str ex = Inr s \<Longrightarrow>
   pr out s = None \<Longrightarrow>
   init_bridge pr MAVLinkBridge args out = (SysExit (- 1), out @ [s])"
  by (simp add: init_bridge_def py_print_def)

text \<open>
  The amended C8 at a constructor whose first call fails and whose second call would
  succeed: the program exits all the same.
\<close>

theorem init_bridge_amended_witness:
  "init_bridge stdout_ok ctor_no_heartbeat default_args [] = (SysExit (- 1), [''no heartbeat''])
   \<and> ctor_no_heartbeat 1 default_args = Inr fresh_bridge"
  using init_bridge_amended
          [of ctor_no_heartbeat default_args "PyExc ''Exception'' True (Inr ''no heartbeat'')"
              "''no heartbeat''" stdout_ok "[]"]
  by (simp add: ctor_no_heartbeat_def stdout_ok_def)

text \<open>
  When \<^verbatim>\<open>str(ex)\<close> or the print raises in the handler, that exception propagates and
  \<^verbatim>\<open>sys.exit(-1)\<close> is not reached.
\<close>

lemma init_bridge_print_fails:
  "MAVLinkBridge 0 args = Inl ex \<Longrightarrow> derives_Exception ex \<Longrightarrow> exc_str ex = Inr s \<Longrightarrow>
   pr out s = Some ex' \<Longrightarrow>
   init_bridge pr MAVLinkBridge args out = (Uncaught ex', out)"
  by (simp add: init_bridge_def py_print_def)

lemma init_bridge_str_fails:
  "MAVLinkBridge 0 args = Inl ex \<Longrightarrow> derives_Exception ex \<Longrightarrow> exc_str ex = Inl ex' \<Longrightarrow>
   init_bridge pr MAVLinkBridge args out = (Uncaught ex', out)"
  by (simp add: init_bridge_def)

subsection \<open>Module registration\<close>

lemma load_loop_append:
  "load_loop pr env (ms1 @ ms2) b out =
     (case load_loop pr env ms1 b out of
        Inl ex \<Rightarrow> Inl ex
      | Inr (b1, out1) \<Rightarrow> load_loop pr env ms2 b1 out1)"
  by (induction ms1 arbitrary: b out) (auto split: sum.splits)

text \<open>
  The table of modules is written under \<^verbatim>\<open>m\<close> and read under \<^verbatim>\<open>mavbridge_m\<close>: loading a
  module never changes what the check of line 215 finds for it.
\<close>

lemma try_load_keeps_prefixed_key:
  "try_load env b m (''mavbridge_'' @ m) = Inr b1 \<Longrightarrow>
   get_module b1 (''mavbridge_'' @ m) = get_module b (''mavbridge_'' @ m)"
  by (auto simp: try_load_def add_module_def get_module_def Let_def
      split: sum.splits option.splits)

text \<open>
  C4 on the code: the module \<^verbatim>\<open>foo\<close> requested twice is loaded twice. Both requests print
  \<^verbatim>\<open>loaded successfully\<close>, none prints \<^verbatim>\<open>already loaded\<close>, and the entrypoint has
  registered its handler entry twice.
\<close>

theorem load_loop_twice_loads_twice:
  "map_sum id (\<lambda>(b, out). (registrations b, modules b ''foo'', out))
     (load_loop stdout_ok example_env [''foo'', ''foo''] fresh_bridge [])
   = Inr ([(''foo'', ''HEARTBEAT''), (''foo'', ''HEARTBEAT'')], Some ''mavbridge_foo'',
          [msg_loaded ''mavbridge_foo'', msg_loaded ''mavbridge_foo''])"
  by (simp add: example_env_def example_import_def example_getattr_def example_reload_def
      example_init_def get_module_def fresh_bridge_def try_load_def add_module_def Let_def
      load_one_def py_print_def stdout_ok_def)

text \<open>
  C5, as stated, fails: importing \<^verbatim>\<open>mavbridge_quits\<close> raises \<^verbatim>\<open>SystemExit\<close>, which
  \<^verbatim>\<open>except Exception\<close> does not catch; the exception leaves the loop and \<^verbatim>\<open>foo\<close> is never
  loaded.
\<close>

theorem load_loop_SystemExit_escapes:
  "load_loop stdout_ok example_env [''quits'', ''foo''] fresh_bridge []
     = Inl (PyExc ''SystemExit'' False (Inr ''1''))"
  by (simp add: example_env_def example_import_def get_module_def fresh_bridge_def
      try_load_def Let_def load_one_def report_failure_def)

text \<open>
  C5, amended. For every list of requested module names: if the modules before \<open>m\<close> have
  been handled and loading \<open>m\<close> raises, during import, attribute lookup, reload or its
  registration entrypoint, an exception that derives from \<^verbatim>\<open>Exception\<close>, and \<^verbatim>\<open>str(ex)\<close>
  returns a string \<open>s\<close> and the standard output takes the line, then
  \<^verbatim>\<open>Failed to load module\<close> is printed for \<open>m\<close> with \<open>s\<close>, the bridge is left as it was, and
  the loop goes on with the modules after \<open>m\<close>.
\<close>

theorem load_loop_failure_isolated:
  assumes "load_loop pr env ms1 b out = Inr (b1, out1)"
    and "get_module b1 (''mavbridge_'' @ m) = None"
    and "try_load env b1 m (''mavbridge_'' @ m) = Inl ex"
    and "derives_Exception ex"
    and "exc_str ex = Inr s"
    and "pr out1 (msg_failed (''mavbridge_'' @ m) s) = None"
  shows "load_loop pr env (ms1 @ m # ms2) b out =
           load_loop pr env ms2 b1 (out1 @ [msg_failed (''mavbridge_'' @ m) s])"
  using assms
  by (simp add: load_loop_append load_one_def report_failure_def py_print_def Let_def)

text \<open>
  The amended C5 at the list \<^verbatim>\<open>foo, missing, bar\<close>: \<^verbatim>\<open>foo\<close> is loaded, the import error of
  \<^verbatim>\<open>missing\<close> is printed, and \<^verbatim>\<open>bar\<close> is loaded after it.
\<close>

theorem load_loop_failure_isolated_witness:
  "load_loop stdout_ok example_env [''foo'', ''missing'', ''bar''] fresh_bridge []
     = Inr (fresh_bridge
              \<lparr>modules := [''foo'' \<mapsto> ''mavbridge_foo'', ''bar'' \<mapsto> ''mavbridge_bar''],
               registrations := [(''foo'', ''HEARTBEAT''), (''bar'', ''HEARTBEAT'')]\<rparr>,
            [msg_loaded ''mavbridge_foo'',
             msg_failed ''mavbridge_missing'' ''No module named mavbridge_missing'',
             msg_loaded ''mavbridge_bar''])"
proof -
  let ?b1 = "fresh_bridge\<lparr>modules := [''foo'' \<mapsto> ''mavbridge_foo''],
                           registrations := [(''foo'', ''HEARTBEAT'')]\<rparr>"
  let ?ex = "PyExc ''ImportError'' True (Inr ''No module named mavbridge_missing'')"
  have before: "load_loop stdout_ok example_env [''foo''] fresh_bridge []
                  = Inr (?b1, [msg_loaded ''mavbridge_foo''])"
    by (simp add: example_env_def example_import_def example_getattr_def example_reload_def
        example_init_def get_module_def fresh_bridge_def try_load_def add_module_def Let_def
        load_one_def py_print_def stdout_ok_def)
  have unknown: "get_module ?b1 (''mavbridge_'' @ ''missing'') = None"
    by (simp add: get_module_def fresh_bridge_def)
  have raises: "try_load example_env ?b1 ''missing'' (''mavbridge_'' @ ''missing'') = Inl ?ex"
    by (simp add: example_env_def example_import_def try_load_def)
  have derives: "derives_Exception ?ex"
    by simp
  have shown: "exc_str ?ex = Inr ''No module named mavbridge_missing''"
    by simp
  have printed: "stdout_ok [msg_loaded ''mavbridge_foo'']
                   (msg_failed (''mavbridge_'' @ ''missing'') ''No module named mavbridge_missing'')
                 = None"
    by (simp add: stdout_ok_def)
  have "load_loop stdout_ok example_env ([''foo''] @ ''missing'' # [''bar'']) fresh_bridge []
          = load_loop stdout_ok example_env [''bar''] ?b1
              ([msg_loaded ''mavbridge_foo'']
                 @ [msg_failed (''mavbridge_'' @ ''missing'') ''No module named mavbridge_missing''])"
    by (rule load_loop_failure_isolated [OF before unknown raises derives shown printed])
  also have "\<dots> = Inr (fresh_bridge
              \<lparr>modules := [''foo'' \<mapsto> ''mavbridge_foo'', ''bar'' \<mapsto> ''mavbridge_bar''],
               registrations := [(''foo'', ''HEARTBEAT''), (''bar'', ''HEARTBEAT'')]\<rparr>,
            [msg_loaded ''mavbridge_foo'',
             msg_failed ''mavbridge_missing'' ''No module named mavbridge_missing'',
             msg_loaded ''mavbridge_bar''])"
    by (simp add: example_env_def example_import_def example_getattr_def example_reload_def
        example_init_def get_module_def fresh_bridge_def try_load_def add_module_def Let_def
        load_one_def py_print_def stdout_ok_def)
  finally show ?thesis by simp
qed

text \<open>
  When the handler cannot report the failure, because \<^verbatim>\<open>str(ex)\<close> raises or the print
  raises, that exception leaves the loop and the modules after \<open>m\<close> are not handled.
\<close>

lemma load_loop_report_fails:
  assumes "get_module b (''mavbridge_'' @ m) = None"
    and "try_load env b m (''mavbridge_'' @ m) = Inl ex"
    and "derives_Exception ex"
    and "exc_str ex = Inl ex' \<or> (\<exists>s. exc_str ex = Inr s
           \<and> pr out (msg_failed (''mavbridge_'' @ m) s) = Some ex')"
  shows "load_loop pr env (m # ms) b out = Inl ex'"
  using assms by (auto simp: load_one_def report_failure_def py_print_def Let_def)

text \<open>
  When the standard output takes every line and loading can only raise exceptions that
  derive from \<^verbatim>\<open>Exception\<close> and have a string, the loop handles every requested module,
  prints one line for each, and start-up goes on.
\<close>

lemma load_one_completes:
  assumes "\<And>out line. pr out line = None"
    and "\<And>b' ex. try_load env b' m (''mavbridge_'' @ m) = Inl ex
           \<Longrightarrow> derives_Exception ex \<and> (\<exists>s. exc_str ex = Inr s)"
  shows "\<exists>b' line. load_one pr env m b out = Inr (b', out @ [line])"
proof (cases "get_module b (''mavbridge_'' @ m)")
  case (Some obj)
  with assms(1) show ?thesis by (simp add: load_one_def py_print_def)
next
  case None
  show ?thesis
  proof (cases "try_load env b m (''mavbridge_'' @ m)")
    case (Inl ex)
    with assms(2) obtain s where "derives_Exception ex" "exc_str ex = Inr s" by blast
    with None Inl assms(1) show ?thesis
      by (simp add: load_one_def report_failure_def py_print_def)
  next
    case (Inr b')
    with None assms(1) show ?thesis by (simp add: load_one_def py_print_def)
  qed
qed

lemma load_loop_completes:
  assumes "\<And>out line. pr out line = None"
    and "\<And>b' m ex. try_load env b' m (''mavbridge_'' @ m) = Inl ex
           \<Longrightarrow> derives_Exception ex \<and> (\<exists>s. exc_str ex = Inr s)"
  shows "\<exists>b' lines. load_loop pr env ms b out = Inr (b', out @ lines) \<and> length lines = length ms"
proof (induction ms arbitrary: b out)
  case Nil
  show ?case by simp
next
  case (Cons m ms)
  from load_one_completes [of pr env m b out] assms
  obtain b1 line where step: "load_one pr env m b out = Inr (b1, out @ [line])"
    by blast
  from Cons.IH [of b1 "out @ [line]"] obtain b' lines where
    "load_loop pr env ms b1 (out @ [line]) = Inr (b', (out @ [line]) @ lines)"
    "length lines = length ms"
    by blast
  with step show ?case
    by (intro exI [of _ b'] exI [of _ "line # lines"]) simp
qed

subsection \<open>The start-up loop\<close>






end
